theory Spec2Isabelle
  imports Complex_Main "HOL-Library.Sublist"
begin

section \<open>Strings of the JavaScript runtime\<close>

text \<open>
  A line of a snapshot is a \<^typ>\<open>string\<close>: a list of 8-bit characters, read as the code
  units U+0000 .. U+00FF.  On this range \<open>String.prototype.toLowerCase\<close> maps
  \<open>A-Z\<close> and the accented capitals U+00C0 .. U+00DE (without the multiplication sign
  U+00D7) to the code unit 32 above, and the regular expression class \<open>\s\<close> as well as
  \<open>String.prototype.trim\<close> recognise TAB, LF, VT, FF, CR, SPACE and NBSP.
\<close>

definition is_ws :: "char \<Rightarrow> bool" where
  "is_ws c = (c \<in> set [CHR 0x09, CHR 0x0A, CHR 0x0B, CHR 0x0C, CHR 0x0D, CHR 0x20, CHR 0xA0])"

definition lower_char :: "char \<Rightarrow> char" where
  "lower_char c =
     (let n = (of_char c :: nat)
      in if (65 \<le> n \<and> n \<le> 90) \<or> (192 \<le> n \<and> n \<le> 222 \<and> n \<noteq> 215)
         then char_of (n + 32) else c)"

definition toLowerCase :: "string \<Rightarrow> string" where
  "toLowerCase s = map lower_char s"

definition trim :: "string \<Rightarrow> string" where
  "trim s = rev (dropWhile is_ws (rev (dropWhile is_ws s)))"

text \<open>\<open>s.split(/\s+/)\<close>: the pieces between maximal runs of white space; a run at either
  end leaves an empty piece there, and the empty string gives one empty piece.\<close>

function split_ws :: "string \<Rightarrow> string list" where
  "split_ws s =
     (let tok = takeWhile (\<lambda>c. \<not> is_ws c) s;
          rest = dropWhile (\<lambda>c. \<not> is_ws c) s
      in if rest = [] then [tok] else tok # split_ws (dropWhile is_ws rest))"
  by pat_completeness auto
termination
proof (relation "measure length")
  fix s :: string and tok rest
  assume r: "rest = dropWhile (\<lambda>c. \<not> is_ws c) s" and ne: "rest \<noteq> []"
  have "is_ws (hd rest)" using r ne hd_dropWhile [of "\<lambda>c. \<not> is_ws c" s] by auto
  then have "length (dropWhile is_ws rest) < length rest"
    using ne by (cases rest) (auto simp: le_imp_less_Suc length_dropWhile_le)
  also have "length rest \<le> length s" using r by (simp add: length_dropWhile_le)
  finally show "(dropWhile is_ws rest, s) \<in> measure length" by simp
qed simp

declare split_ws.simps [simp del]

text \<open>\<open>s.indexOf(pat)\<close>: the first position where \<open>pat\<close> occurs, \<open>None\<close> for -1.\<close>

fun indexOf :: "string \<Rightarrow> string \<Rightarrow> nat option" where
  "indexOf [] pat = (if pat = [] then Some 0 else None)"
| "indexOf (c # cs) pat =
     (if prefix pat (c # cs) then Some 0 else map_option Suc (indexOf cs pat))"

definition str_includes :: "string \<Rightarrow> string \<Rightarrow> bool" where
  "str_includes s pat = (indexOf s pat \<noteq> None)"

definition startsWith :: "string \<Rightarrow> string \<Rightarrow> bool" where
  "startsWith s pat = prefix pat s"

text \<open>\<open>s.split(sep)\<close> for a string separator: the pieces between the occurrences of
  \<open>sep\<close>, found from the left; the empty separator cuts between all code units.\<close>

function split_str :: "string \<Rightarrow> string \<Rightarrow> string list" where
  "split_str s sep =
     (if sep = [] then map (\<lambda>c. [c]) s
      else case indexOf s sep of
             None \<Rightarrow> [s]
           | Some i \<Rightarrow> take i s # split_str (drop (i + length sep) s) sep)"
  by pat_completeness auto
termination
proof (relation "measure (\<lambda>(s, sep). length s)")
  fix s sep :: string and i
  assume "sep \<noteq> []" and "indexOf s sep = Some i"
  then have "s \<noteq> []" by (cases s) auto
  with \<open>sep \<noteq> []\<close> show "((drop (i + length sep) s, sep), (s, sep)) \<in> measure (\<lambda>(s, sep). length s)"
    by (cases sep) auto
qed simp

declare split_str.simps [simp del]

text \<open>\<open>s.replace(pat, '')\<close> with a string pattern removes the first occurrence only.\<close>

definition remove_first :: "string \<Rightarrow> string \<Rightarrow> string" where
  "remove_first s pat =
     (case indexOf s pat of None \<Rightarrow> s | Some i \<Rightarrow> take i s @ drop (i + length pat) s)"

subsection \<open>Sets of strings in insertion order\<close>

text \<open>\<open>new Set(xs)\<close> keeps the first occurrence of every element, in the order of
  insertion; \<open>has\<close> is membership and \<open>size\<close> the number of elements.\<close>

definition new_Set :: "'a list \<Rightarrow> 'a list" where
  "new_Set xs = foldl (\<lambda>acc x. if x \<in> set acc then acc else acc @ [x]) [] xs"

definition has :: "'a list \<Rightarrow> 'a \<Rightarrow> bool" where
  "has S x = (x \<in> set S)"

section \<open>Content differ\<close>

text \<open>An \<open>{old, new}\<close> object: a modified pair of lines, and the base of a metric change
  and of the metrics section of a diff.\<close>

record 'a old_new =
  old :: 'a
  new :: 'a

record content_diff =
  added :: "string list"
  removed :: "string list"
  modified :: "string old_new list"

text \<open>
  \<open>findSimilarLine\<close>: the first line of \<open>lines\<close> whose word set shares at least 70% of
  the larger of the two word sets with the word set of \<open>line\<close>.  The quotient and the
  threshold are binary64 numbers in the source; for word sets of fewer than \<open>10^14\<close>
  elements the rounded comparison \<open>c / m >= 0.7\<close> has the truth value of the exact one,
  which is what the model computes.  Both sets hold at least one word (the split of any
  string has a piece), so the divisor is positive.
\<close>

definition similarity :: "string list \<Rightarrow> string list \<Rightarrow> rat" where
  "similarity words otherWords =
     of_nat (length (filter (\<lambda>word. has otherWords word) words))
       / of_nat (max (length words) (length otherWords))"

definition threshold :: rat where
  "threshold = 7 / 10"

fun findSimilarLine_loop :: "string list \<Rightarrow> string list \<Rightarrow> string option" where
  "findSimilarLine_loop words [] = None"
| "findSimilarLine_loop words (otherLine # lines) =
     (let otherWords = new_Set (split_ws (toLowerCase otherLine))
      in if similarity words otherWords \<ge> threshold then Some otherLine
         else findSimilarLine_loop words lines)"

definition findSimilarLine :: "string \<Rightarrow> string list \<Rightarrow> string option" where
  "findSimilarLine line lines =
     findSimilarLine_loop (new_Set (split_ws (toLowerCase line))) lines"

text \<open>\<open>compareContent\<close>: the first loop runs over the new lines and appends to \<open>added\<close>
  or \<open>modified\<close>, the second runs over the old lines and appends to \<open>removed\<close>.\<close>

definition added_step :: "string list \<Rightarrow> string list \<Rightarrow> content_diff \<Rightarrow> string \<Rightarrow> content_diff" where
  "added_step oldSet oldLines d line =
     (if \<not> has oldSet line
      then (case findSimilarLine line oldLines of
              Some l \<Rightarrow> d\<lparr>modified := modified d @ [\<lparr>old = l, new = line\<rparr>]\<rparr>
            | None \<Rightarrow> d\<lparr>added := added d @ [line]\<rparr>)
      else d)"

definition removed_step :: "string list \<Rightarrow> content_diff \<Rightarrow> string \<Rightarrow> content_diff" where
  "removed_step newSet d line =
     (if \<not> has newSet line \<and> \<not> list_ex (\<lambda>m. old m = line) (modified d)
      then d\<lparr>removed := removed d @ [line]\<rparr>
      else d)"

definition compareContent :: "string list \<Rightarrow> string list \<Rightarrow> content_diff" where
  "compareContent oldLines newLines =
     (let oldSet = new_Set oldLines;
          newSet = new_Set newLines;
          d0 = \<lparr>added = [], removed = [], modified = []\<rparr>;
          d1 = foldl (added_step oldSet oldLines) d0 newLines
      in foldl (removed_step newSet) d1 oldLines)"

subsection \<open>The similarity test in the words of the specification\<close>




section \<open>Numbers of the JavaScript runtime\<close>

text \<open>
  A \<open>number\<close> is a binary64 value: \<open>NaN\<close>, one of the two infinities, or a finite
  value.  A finite value is represented by the rational that its decimal numeral
  denotes, the numeral being the one \<open>Number.prototype.toString\<close> prints (the shortest
  that reads back as the same value).  Rounding of arithmetic and of long numerals to
  binary64, overflow to an infinity and the sign of zero are not modelled.
\<close>

datatype number = NaN | Infinity | NegInfinity | Finite rat

text \<open>\<open>x || 0\<close>: the falsy numbers are \<open>NaN\<close> and zero.\<close>

definition or_zero :: "number \<Rightarrow> number" where
  "or_zero x = (if x = NaN \<or> x = Finite 0 then Finite 0 else x)"

text \<open>\<open>x > 0\<close>.\<close>

fun gt_zero :: "number \<Rightarrow> bool" where
  "gt_zero (Finite q) = (q > 0)"
| "gt_zero Infinity = True"
| "gt_zero NegInfinity = False"
| "gt_zero NaN = False"

text \<open>\<open>x >= 0\<close>.\<close>

fun ge_zero :: "number \<Rightarrow> bool" where
  "ge_zero (Finite q) = (q \<ge> 0)"
| "ge_zero Infinity = True"
| "ge_zero NegInfinity = False"
| "ge_zero NaN = False"

text \<open>Unary minus and subtraction; \<open>Infinity - Infinity\<close> is \<open>NaN\<close>.\<close>

fun negate :: "number \<Rightarrow> number" where
  "negate (Finite q) = Finite (- q)"
| "negate Infinity = NegInfinity"
| "negate NegInfinity = Infinity"
| "negate NaN = NaN"


subsection \<open>Reading numerals: \<open>parseInt(s, 10)\<close> and \<open>parseFloat(s)\<close>\<close>

definition is_digit :: "char \<Rightarrow> bool" where
  "is_digit c = (48 \<le> (of_char c :: nat) \<and> (of_char c :: nat) \<le> 57)"

definition digit_value :: "char \<Rightarrow> nat" where
  "digit_value c = of_char c - 48"

definition digits_value :: "string \<Rightarrow> nat" where
  "digits_value ds = foldl (\<lambda>acc c. 10 * acc + digit_value c) 0 ds"

text \<open>\<open>parseInt(s, 10)\<close>: leading white space is skipped, a sign is read, and the longest
  run of decimal digits that follows is the value; \<open>NaN\<close> when there is no digit.\<close>

definition parseInt :: "string \<Rightarrow> number" where
  "parseInt s =
     (let S = dropWhile is_ws s;
          sign = (case S of [] \<Rightarrow> 1 | c # cs \<Rightarrow> if c = CHR ''-'' then - 1 else (1 :: rat));
          S1 = (case S of [] \<Rightarrow> [] | c # cs \<Rightarrow> if c = CHR ''+'' \<or> c = CHR ''-'' then cs else S);
          Z = takeWhile is_digit S1
      in if Z = [] then NaN else Finite (sign * of_nat (digits_value Z)))"

text \<open>The exponent part \<open>e\<close>, \<open>e+\<close> or \<open>e-\<close> with at least one digit, at the front of
  \<open>s\<close>; without a digit there is no exponent part and the numeral ends before it.\<close>

definition exponent_part :: "string \<Rightarrow> int option" where
  "exponent_part s =
     (case s of
        [] \<Rightarrow> None
      | c # cs \<Rightarrow>
          if c = CHR ''e'' \<or> c = CHR ''E''
          then (let sign = (case cs of [] \<Rightarrow> 1 | d # ds \<Rightarrow> if d = CHR ''-'' then - 1 else (1 :: int));
                    ds = (case cs of [] \<Rightarrow> [] | d # ds \<Rightarrow> if d = CHR ''+'' \<or> d = CHR ''-'' then ds else cs);
                    Z = takeWhile is_digit ds
                in if Z = [] then None else Some (sign * int (digits_value Z)))
          else None)"

definition scale10 :: "rat \<Rightarrow> int option \<Rightarrow> rat" where
  "scale10 q ex =
     (case ex of
        None \<Rightarrow> q
      | Some e \<Rightarrow> if e \<ge> 0 then q * 10 ^ nat e else q / 10 ^ nat (- e))"

text \<open>The longest prefix that is an unsigned decimal literal: \<open>Infinity\<close>, digits with an
  optional fraction, or a fraction that starts with the point; each with an optional
  exponent part.\<close>

definition unsigned_decimal :: "string \<Rightarrow> number" where
  "unsigned_decimal s =
     (if prefix ''Infinity'' s then Infinity
      else let ip = takeWhile is_digit s;
               r = dropWhile is_digit s
           in case r of
                [] \<Rightarrow> if ip = [] then NaN else Finite (of_nat (digits_value ip))
              | c # r' \<Rightarrow>
                  if c = CHR ''.''
                  then (let fp = takeWhile is_digit r';
                            r'' = dropWhile is_digit r'
                        in if ip = [] \<and> fp = [] then NaN
                           else Finite (scale10 (of_nat (digits_value ip)
                                                   + of_nat (digits_value fp) / 10 ^ length fp)
                                          (exponent_part r'')))
                  else if ip = [] then NaN
                  else Finite (scale10 (of_nat (digits_value ip)) (exponent_part r)))"

definition parseFloat :: "string \<Rightarrow> number" where
  "parseFloat s =
     (case dropWhile is_ws s of
        [] \<Rightarrow> NaN
      | c # cs \<Rightarrow>
          if c = CHR ''-'' then negate (unsigned_decimal cs)
          else if c = CHR ''+'' then unsigned_decimal cs
          else unsigned_decimal (c # cs))"

section \<open>Snapshot parser and metric extractor\<close>

datatype error = FormatError | IOError | TypeError

text \<open>A rejected promise or a thrown exception is the left summand; \<open>bind\<close> runs the
  rest of a function body on a returned value.\<close>

definition bind :: "error + 'a \<Rightarrow> ('a \<Rightarrow> error + 'b) \<Rightarrow> error + 'b" where
  "bind m f = (case m of Inl e \<Rightarrow> Inl e | Inr x \<Rightarrow> f x)"

record HealthMetrics =
  last_updated :: string
  word_count :: number
  reading_time :: number
  has_todos :: bool
  todo_count :: number
  linked_files :: "string list"
  broken_links :: "string list"
  completion_percentage :: number
  section_count :: number
  section_depth :: number
  code_blocks :: number
  avg_section_length :: number
  readability_score :: number
  last_snapshot_delta :: number

record SnapshotMetadata =
  version :: string
  created_at :: string
  updated_at :: string
  health_metrics :: "HealthMetrics option"

record Snapshot =
  metadata :: SnapshotMetadata
  content :: "string list"

text \<open>\<open>lines.findIndex(p)\<close>, with \<open>None\<close> for -1.\<close>

fun findIndex :: "('a \<Rightarrow> bool) \<Rightarrow> 'a list \<Rightarrow> nat option" where
  "findIndex p [] = None"
| "findIndex p (x # xs) = (if p x then Some 0 else map_option Suc (findIndex p xs))"

text \<open>
  \<open>extractMetric\<close>.  \<open>line.split(':')[1]\<close> is \<open>undefined\<close> when the line has no colon,
  and \<open>.trim()\<close> on it throws a \<open>TypeError\<close>; \<open>!line\<close> also holds for the empty line.
  \<open>value.split(' ')[0]\<close> of an empty array would be \<open>undefined\<close>, which \<open>parseInt\<close>
  reads as \<open>NaN\<close>.
\<close>

definition extractMetric :: "string list \<Rightarrow> string \<Rightarrow> bool \<Rightarrow> error + number" where
  "extractMetric lines key isPercentage =
     (case find (\<lambda>l. str_includes l (''- '' @ key @ '':'')) lines of
        None \<Rightarrow> Inr (Finite 0)
      | Some line \<Rightarrow>
          if line = [] then Inr (Finite 0)
          else (case split_str line '':'' of
                  p0 # p1 # ps \<Rightarrow>
                    (let value = trim p1
                     in if isPercentage then Inr (parseFloat (remove_first value ''%''))
                        else (case split_str value '' '' of
                                [] \<Rightarrow> Inr NaN
                              | tok # toks \<Rightarrow> Inr (parseInt tok)))
                | _ \<Rightarrow> Inl TypeError))"

text \<open>\<open>metadataLines.find(line => line.startsWith(label))?.split(': ')[1] || ''\<close>.\<close>

definition header_field :: "string list \<Rightarrow> string \<Rightarrow> string" where
  "header_field metadataLines label =
     (case find (\<lambda>line. startsWith line label) metadataLines of
        None \<Rightarrow> []
      | Some line \<Rightarrow> (case split_str line '': '' of p0 # p1 # ps \<Rightarrow> p1 | _ \<Rightarrow> []))"

text \<open>The object literal \<open>healthMetrics\<close> of \<open>parseSnapshot\<close>; its fields are evaluated
  in the order of the source.\<close>

definition parseHealthMetrics :: "string list \<Rightarrow> string \<Rightarrow> error + HealthMetrics" where
  "parseHealthMetrics metadataLines updated =
     bind (extractMetric metadataLines ''Word Count'' False) (\<lambda>wc.
     bind (extractMetric metadataLines ''Reading Time'' False) (\<lambda>rt.
     bind (extractMetric metadataLines ''TODOs'' False) (\<lambda>ht.
     bind (extractMetric metadataLines ''TODOs'' False) (\<lambda>tc.
     bind (extractMetric metadataLines ''Completion'' True) (\<lambda>cp.
     bind (extractMetric metadataLines ''Sections'' False) (\<lambda>sc.
     bind (extractMetric metadataLines ''Code Blocks'' False) (\<lambda>cb.
     bind (extractMetric metadataLines ''Days Since Last Snapshot'' False) (\<lambda>sd.
       Inr \<lparr>last_updated = updated,
            word_count = or_zero wc,
            reading_time = or_zero rt,
            has_todos = gt_zero ht,
            todo_count = or_zero tc,
            linked_files = [],
            broken_links = [],
            completion_percentage = or_zero cp,
            section_count = or_zero sc,
            section_depth = Finite 0,
            code_blocks = or_zero cb,
            avg_section_length = Finite 0,
            readability_score = Finite 0,
            last_snapshot_delta = or_zero sd\<rparr>))))))))"

definition parseMetadata :: "string list \<Rightarrow> error + SnapshotMetadata" where
  "parseMetadata metadataLines =
     (let version = header_field metadataLines ''Version:'';
          created = header_field metadataLines ''Created:'';
          updated = header_field metadataLines ''Updated:''
      in bind (parseHealthMetrics metadataLines updated) (\<lambda>healthMetrics.
           Inr \<lparr>version = version, created_at = created, updated_at = updated,
                health_metrics = Some healthMetrics\<rparr>))"

text \<open>The text of a snapshot: lines around the first line that is exactly \<open>---\<close>.\<close>

definition parseContent :: "string \<Rightarrow> error + Snapshot" where
  "parseContent doc =
     (let lines = split_str doc ''\<newline>''
      in case findIndex (\<lambda>line. line = ''---'') lines of
           None \<Rightarrow> Inl FormatError
         | Some metadataEndIndex \<Rightarrow>
             (let metadataLines = take metadataEndIndex lines;
                  contentLines = drop (metadataEndIndex + 1) lines
              in bind (parseMetadata metadataLines) (\<lambda>md.
                   Inr \<lparr>metadata = md,
                        content = filter (\<lambda>line. trim line \<noteq> []) contentLines\<rparr>)))"




section \<open>Metric differ\<close>

text \<open>The keys of a \<open>HealthMetrics\<close> object in the order of \<open>Object.keys\<close>, and the value
  stored under a key.\<close>

datatype metric_key =
    Last_updated | Word_count | Reading_time | Has_todos | Todo_count | Linked_files
  | Broken_links | Completion_percentage | Section_count | Section_depth | Code_blocks
  | Avg_section_length | Readability_score | Last_snapshot_delta

datatype metric_value = Num number | Str string | Bool bool | Arr "string list"





record metric_change = "metric_value old_new" +
  delta :: "number option"



section \<open>Comparison of two snapshots\<close>

record metrics_diff = "HealthMetrics old_new" +
  changes :: "(metric_key \<times> metric_change) list"

record SnapshotDiff =
  oldPath :: string
  newPath :: string
  metrics :: metrics_diff
  content_diff :: content_diff


subsection \<open>The labelled metrics, in the words of the specification\<close>

text \<open>The label of each metric with a line in the header, whether it is read as a
  percentage, and the field it fills; and the first line that carries a label.\<close>

definition metric_table :: "(string \<times> bool \<times> (HealthMetrics \<Rightarrow> number)) list" where
  "metric_table =
     [(''Word Count'', False, word_count),
      (''Reading Time'', False, reading_time),
      (''TODOs'', False, todo_count),
      (''Completion'', True, completion_percentage),
      (''Sections'', False, section_count),
      (''Code Blocks'', False, code_blocks),
      (''Days Since Last Snapshot'', False, last_snapshot_delta)]"

definition metric_line :: "string list \<Rightarrow> string \<Rightarrow> string option" where
  "metric_line lines key = find (\<lambda>l. str_includes l (''- '' @ key @ '':'')) lines"

text \<open>The trimmed text after the first colon of the first line that carries a label:
  what \<open>extractMetric\<close> hands to \<open>parseInt\<close> or \<open>parseFloat\<close>.\<close>

definition value_text :: "string list \<Rightarrow> string \<Rightarrow> string option" where
  "value_text lines key =
     (case metric_line lines key of
        None \<Rightarrow> None
      | Some line \<Rightarrow> (case split_str line '':'' of p0 # p1 # ps \<Rightarrow> Some (trim p1) | _ \<Rightarrow> None))"

text \<open>All lines of a document before the first line that is exactly \<open>---\<close>.\<close>

definition metadata_lines :: "string \<Rightarrow> string list" where
  "metadata_lines doc = takeWhile (\<lambda>line. line \<noteq> ''---'') (split_str doc ''\<newline>'')"



section \<open>Properties of the content differ\<close>

subsection \<open>Insertion-ordered sets and the similarity test\<close>

lemma foldl_new_Set_set:
  "set (foldl (\<lambda>acc x. if x \<in> set acc then acc else acc @ [x]) acc xs) = set acc \<union> set xs"
  by (induction xs arbitrary: acc) auto


lemma set_new_Set [simp]: "set (new_Set xs) = set xs"
  by (simp add: new_Set_def foldl_new_Set_set)









subsection \<open>The two loops of the content differ\<close>

lemma added_loop:
  "foldl (added_step S oldLines) d ns =
     d\<lparr>added := added d @ filter (\<lambda>n. n \<notin> set S \<and> findSimilarLine n oldLines = None) ns,
       modified := modified d @
          map (\<lambda>n. \<lparr>old = the (findSimilarLine n oldLines), new = n\<rparr>)
              (filter (\<lambda>n. n \<notin> set S \<and> findSimilarLine n oldLines \<noteq> None) ns)\<rparr>"
  by (induction ns arbitrary: d) (auto simp: added_step_def has_def split: option.splits)

lemma removed_loop:
  "foldl (removed_step S) d os =
     d\<lparr>removed := removed d @ filter (\<lambda>l. l \<notin> set S \<and> l \<notin> old ` set (modified d)) os\<rparr>"
proof (induction os arbitrary: d)
  case Nil
  show ?case by simp
next
  case (Cons l os)
  show ?case
    by (simp add: Cons.IH) (auto simp: removed_step_def has_def list_ex_iff)
qed

lemma added_compareContent:
  "added (compareContent oldLines newLines)
     = filter (\<lambda>n. n \<notin> set oldLines \<and> findSimilarLine n oldLines = None) newLines"
  by (simp add: compareContent_def Let_def added_loop removed_loop)

lemma modified_compareContent:
  "modified (compareContent oldLines newLines)
     = map (\<lambda>n. \<lparr>old = the (findSimilarLine n oldLines), new = n\<rparr>)
          (filter (\<lambda>n. n \<notin> set oldLines \<and> findSimilarLine n oldLines \<noteq> None) newLines)"
  by (simp add: compareContent_def Let_def added_loop removed_loop)

lemma removed_compareContent:
  "removed (compareContent oldLines newLines)
     = filter (\<lambda>l. l \<notin> set newLines
                  \<and> l \<notin> old ` set (modified (compareContent oldLines newLines))) oldLines"
  by (simp add: compareContent_def Let_def added_loop removed_loop)


lemma modified_new_iff:
  "n \<in> new ` set (modified (compareContent oldLines newLines))
     \<longleftrightarrow> n \<in> set newLines \<and> n \<notin> set oldLines \<and> findSimilarLine n oldLines \<noteq> None"
  by (auto simp: modified_compareContent image_iff)

lemma modified_old_iff:
  "l \<in> old ` set (modified (compareContent oldLines newLines))
     \<longleftrightarrow> (\<exists>n \<in> set newLines. n \<notin> set oldLines \<and> findSimilarLine n oldLines = Some l)"
  by (auto simp: modified_compareContent image_iff)


subsection \<open>C1: the login scenario\<close>

text \<open>
  C1, as the specification states it: old body \<open>["Fixed login bug", "Add tests"]\<close>, new
  body \<open>["Fixed login issue", "Add tests", "Update docs"]\<close> give one modified pair,
  \<open>added = ["Update docs"]\<close> and \<open>removed = []\<close>.  The differ does not return this:
  the word sets \<open>{fixed, login, issue}\<close> and \<open>{fixed, login, bug}\<close> share two words
  of three, and 2/3 is below the threshold of 0.7.
\<close>

theorem C1_scenario_counterexample:
  "compareContent [''Fixed login bug'', ''Add tests'']
       [''Fixed login issue'', ''Add tests'', ''Update docs'']
     \<noteq> \<lparr>added = [''Update docs''], removed = [],
          modified = [\<lparr>old = ''Fixed login bug'', new = ''Fixed login issue''\<rparr>]\<rparr>"
  by code_simp

text \<open>
  C1 (amended): for these two bodies the content diff returns no modified pair,
  \<open>added = ["Fixed login issue", "Update docs"]\<close> and \<open>removed = ["Fixed login bug"]\<close>;
  the similarity of the two login lines is exactly 2/3.
\<close>

theorem C1_scenario_amended:
  "compareContent [''Fixed login bug'', ''Add tests'']
       [''Fixed login issue'', ''Add tests'', ''Update docs'']
     = \<lparr>added = [''Fixed login issue'', ''Update docs''],
         removed = [''Fixed login bug''], modified = []\<rparr>
   \<and> similarity (new_Set (split_ws (toLowerCase ''Fixed login issue'')))
        (new_Set (split_ws (toLowerCase ''Fixed login bug''))) = 2 / 3"
  by code_simp

subsection \<open>C2: the similarity threshold and the first match\<close>



subsection \<open>C3: how the lines are classified\<close>

text \<open>
  C3, as the specification states it: the content diff is a partition; every old line
  is in exactly one of verbatim-matched, removed and \<open>modified.old\<close>.  For the old body
  \<open>["x"]\<close> and the new body \<open>["x", "X"]\<close> the old line \<open>x\<close> is matched verbatim and
  is also the old side of a modified pair: the similar-line search runs over all old
  lines, matched or not.
\<close>

theorem C3_partition_counterexample:
  "''x'' \<in> set [''x''] \<and> ''x'' \<in> set [''x'', ''X'']
   \<and> ''x'' \<in> old ` set (modified (compareContent [''x''] [''x'', ''X'']))"
proof -
  have "modified (compareContent [''x''] [''x'', ''X'']) = [\<lparr>old = ''x'', new = ''X''\<rparr>]"
    by code_simp
  then show ?thesis by simp
qed

text \<open>
  C3 (amended): every line of the new sequence is in exactly one of verbatim-matched,
  \<open>added\<close> and \<open>modified.new\<close>.  Every line of the old sequence is in \<open>removed\<close>
  exactly when it is neither verbatim-matched nor the old side of a modified pair, so it
  is in at least one of the three classes and \<open>removed\<close> excludes the other two (an old
  line can be verbatim-matched and \<open>modified.old\<close> at once).  A verbatim-matched line is
  absent from \<open>added\<close>, \<open>removed\<close> and \<open>modified.new\<close>.
\<close>

theorem C3_partition_amended:
  "(n \<in> set newLines \<longrightarrow>
      (n \<in> set oldLines \<or> n \<in> set (added (compareContent oldLines newLines))
         \<or> n \<in> new ` set (modified (compareContent oldLines newLines)))
      \<and> \<not> (n \<in> set oldLines \<and> n \<in> set (added (compareContent oldLines newLines)))
      \<and> \<not> (n \<in> set oldLines \<and> n \<in> new ` set (modified (compareContent oldLines newLines)))
      \<and> \<not> (n \<in> set (added (compareContent oldLines newLines))
            \<and> n \<in> new ` set (modified (compareContent oldLines newLines))))
   \<and> (l \<in> set oldLines \<longrightarrow>
      (l \<in> set (removed (compareContent oldLines newLines))
         \<longleftrightarrow> l \<notin> set newLines \<and> l \<notin> old ` set (modified (compareContent oldLines newLines))))
   \<and> (n \<in> set oldLines \<and> n \<in> set newLines \<longrightarrow>
         n \<notin> set (added (compareContent oldLines newLines))
       \<and> n \<notin> set (removed (compareContent oldLines newLines))
       \<and> n \<notin> new ` set (modified (compareContent oldLines newLines)))"
proof -
  have a: "n \<in> set (added (compareContent oldLines newLines))
      \<longleftrightarrow> n \<in> set newLines \<and> n \<notin> set oldLines \<and> findSimilarLine n oldLines = None"
    by (simp add: added_compareContent)
  have r: "\<And>x. x \<in> set (removed (compareContent oldLines newLines))
      \<longleftrightarrow> x \<in> set oldLines \<and> x \<notin> set newLines
          \<and> x \<notin> old ` set (modified (compareContent oldLines newLines))"
    by (subst removed_compareContent) auto
  show ?thesis
    unfolding a r [of l] r [of n] modified_new_iff by blast
qed

theorem C3_partition_amended_witness:
  "''kept'' \<in> set [''kept'', ''gone line'']
   \<and> ''kept'' \<in> set [''kept'', ''KEPT'', ''brand new'']
   \<and> ''kept'' \<notin> set (added (compareContent [''kept'', ''gone line''] [''kept'', ''KEPT'', ''brand new'']))
   \<and> ''kept'' \<notin> set (removed (compareContent [''kept'', ''gone line''] [''kept'', ''KEPT'', ''brand new'']))
   \<and> ''kept'' \<notin> new ` set (modified (compareContent [''kept'', ''gone line''] [''kept'', ''KEPT'', ''brand new'']))
   \<and> compareContent [''kept'', ''gone line''] [''kept'', ''KEPT'', ''brand new'']
       = \<lparr>added = [''brand new''], removed = [''gone line''],
           modified = [\<lparr>old = ''kept'', new = ''KEPT''\<rparr>]\<rparr>"
proof -
  have c: "compareContent [''kept'', ''gone line''] [''kept'', ''KEPT'', ''brand new'']
       = \<lparr>added = [''brand new''], removed = [''gone line''],
           modified = [\<lparr>old = ''kept'', new = ''KEPT''\<rparr>]\<rparr>"
    by code_simp
  have m: "''kept'' \<in> set [''kept'', ''gone line'']
      \<and> ''kept'' \<in> set [''kept'', ''KEPT'', ''brand new'']" by simp
  show ?thesis
    using m c C3_partition_amended [of "''kept''" "[''kept'', ''KEPT'', ''brand new'']"
        "[''kept'', ''gone line'']" "''kept''"]
    by blast
qed

subsection \<open>C10: the old side of a pair is not consumed\<close>



section \<open>Properties of the parser and the metric extractor\<close>

subsection \<open>Splitting at a character\<close>

lemma indexOf_char:
  "indexOf s [c] = (if c \<in> set s then Some (length (takeWhile (\<lambda>x. x \<noteq> c) s)) else None)"
  by (induction s) auto

lemma split_str_char:
  "split_str s [c] =
     (if c \<in> set s
      then takeWhile (\<lambda>x. x \<noteq> c) s # split_str (tl (dropWhile (\<lambda>x. x \<noteq> c) s)) [c]
      else [s])"
proof (cases "c \<in> set s")
  case True
  have "drop (length (takeWhile (\<lambda>x. x \<noteq> c) s) + 1) s = tl (dropWhile (\<lambda>x. x \<noteq> c) s)"
    by (simp add: dropWhile_eq_drop drop_Suc tl_drop)
  with True show ?thesis
    by (subst split_str.simps) (simp add: indexOf_char takeWhile_eq_take [symmetric])
next
  case False
  then show ?thesis by (subst split_str.simps) (simp add: indexOf_char)
qed

lemma split_str_nonempty: "sep \<noteq> [] \<Longrightarrow> split_str s sep \<noteq> []"
  by (subst split_str.simps) (simp split: option.splits)

lemma indexOf_Some_prefix: "indexOf s pat = Some i \<Longrightarrow> prefix pat (drop i s)"
  by (induction s arbitrary: i) (auto split: if_splits)

lemma str_includes_set: "str_includes s pat \<Longrightarrow> set pat \<subseteq> set s"
proof -
  assume "str_includes s pat"
  then obtain i where "indexOf s pat = Some i" by (auto simp: str_includes_def)
  then have "prefix pat (drop i s)" by (rule indexOf_Some_prefix)
  then have "set pat \<subseteq> set (drop i s)" by (rule set_mono_prefix)
  also have "\<dots> \<subseteq> set s" by (rule set_drop_subset)
  finally show ?thesis .
qed

lemma split_colon_two:
  assumes "CHR '':'' \<in> set line"
  shows "\<exists>p0 p1 ps. split_str line '':'' = p0 # p1 # ps"
proof -
  obtain r rs where "split_str (tl (dropWhile (\<lambda>x. x \<noteq> CHR '':'') line)) '':'' = r # rs"
    using split_str_nonempty [of "'':''"]
    by (cases "split_str (tl (dropWhile (\<lambda>x. x \<noteq> CHR '':'') line)) '':''") auto
  with assms show ?thesis by (subst split_str_char) simp
qed

lemma extractMetric_total: "\<exists>v. extractMetric lines key isPercentage = Inr v"
proof (cases "find (\<lambda>l. str_includes l (''- '' @ key @ '':'')) lines")
  case None
  then show ?thesis by (simp add: extractMetric_def)
next
  case (Some line)
  then have "str_includes line (''- '' @ key @ '':'')" by (auto simp: find_Some_iff)
  then have "CHR '':'' \<in> set line" using str_includes_set by fastforce
  then obtain p0 p1 ps where sp: "split_str line '':'' = p0 # p1 # ps"
    using split_colon_two by blast
  show ?thesis
    using Some sp by (auto simp: extractMetric_def Let_def split: list.splits)
qed

lemma or_zero_not_NaN [simp]: "or_zero x \<noteq> NaN"
  by (simp add: or_zero_def)

lemma gt_zero_or_zero [simp]: "gt_zero (or_zero x) = gt_zero x"
  by (cases x) (auto simp: or_zero_def)

lemma bind_extractMetric:
  "bind (extractMetric lines key pct) f = f (projr (extractMetric lines key pct))"
  using extractMetric_total [of lines key pct] by (auto simp: bind_def)

lemma parseHealthMetrics_eq:
  "parseHealthMetrics lines updated =
     Inr \<lparr>last_updated = updated,
          word_count = or_zero (projr (extractMetric lines ''Word Count'' False)),
          reading_time = or_zero (projr (extractMetric lines ''Reading Time'' False)),
          has_todos = gt_zero (projr (extractMetric lines ''TODOs'' False)),
          todo_count = or_zero (projr (extractMetric lines ''TODOs'' False)),
          linked_files = [],
          broken_links = [],
          completion_percentage = or_zero (projr (extractMetric lines ''Completion'' True)),
          section_count = or_zero (projr (extractMetric lines ''Sections'' False)),
          section_depth = Finite 0,
          code_blocks = or_zero (projr (extractMetric lines ''Code Blocks'' False)),
          avg_section_length = Finite 0,
          readability_score = Finite 0,
          last_snapshot_delta = or_zero (projr (extractMetric lines ''Days Since Last Snapshot'' False))\<rparr>"
  by (simp only: parseHealthMetrics_def bind_extractMetric)

lemma extractMetric_absent:
  "metric_line lines key = None \<Longrightarrow> extractMetric lines key pct = Inr (Finite 0)"
  by (simp add: extractMetric_def metric_line_def)

lemma or_zero_NaN [simp]: "or_zero NaN = Finite 0"
  by (simp add: or_zero_def)

lemma or_zero_0 [simp]: "or_zero (Finite 0) = Finite 0"
  by (simp add: or_zero_def)

lemma metric_field:
  assumes "(key, pct, get) \<in> set metric_table"
  shows "get (projr (parseHealthMetrics lines updated)) = or_zero (projr (extractMetric lines key pct))"
  using assms by (auto simp: metric_table_def parseHealthMetrics_eq)

subsection \<open>C5: metric extraction is total and degrades to zero\<close>

text \<open>
  C5: for every list of metadata lines the metric extraction returns a record and never
  throws (the only throwing step of the source, \<open>.trim()\<close> on a missing second piece
  of the split at colons, is not reached: a line that contains \<open>- <Label>:\<close> contains
  a colon).  For each labelled metric the field is \<open>v || 0\<close> for the number \<open>v\<close> that
  \<open>extractMetric\<close> returns; it is never \<open>NaN\<close>, it is 0 when no line carries the label,
  and it is 0 when the value cannot be parsed, that is when the parse gives \<open>NaN\<close>.
\<close>

theorem C5_extraction_total:
  "\<exists>hm. parseHealthMetrics lines updated = Inr hm
     \<and> (\<forall>(key, pct, get) \<in> set metric_table.
          \<exists>v. extractMetric lines key pct = Inr v
            \<and> get hm = or_zero v \<and> get hm \<noteq> NaN
            \<and> (metric_line lines key = None \<longrightarrow> get hm = Finite 0)
            \<and> (v = NaN \<longrightarrow> get hm = Finite 0))"
proof -
  let ?hm = "projr (parseHealthMetrics lines updated)"
  have p: "parseHealthMetrics lines updated = Inr ?hm"
    by (simp add: parseHealthMetrics_eq)
  have "\<exists>v. extractMetric lines key pct = Inr v
            \<and> get ?hm = or_zero v \<and> get ?hm \<noteq> NaN
            \<and> (metric_line lines key = None \<longrightarrow> get ?hm = Finite 0)
            \<and> (v = NaN \<longrightarrow> get ?hm = Finite 0)"
    if m: "(key, pct, get) \<in> set metric_table" for key pct get
  proof -
    obtain v where v: "extractMetric lines key pct = Inr v"
      using extractMetric_total by blast
    have g: "get ?hm = or_zero v" using metric_field [OF m, of lines updated] v by simp
    have "metric_line lines key = None \<longrightarrow> get ?hm = Finite 0"
      using extractMetric_absent [of lines key pct] v g by auto
    with v g show ?thesis by auto
  qed
  then have "\<forall>(key, pct, get) \<in> set metric_table.
          \<exists>v. extractMetric lines key pct = Inr v
            \<and> get ?hm = or_zero v \<and> get ?hm \<noteq> NaN
            \<and> (metric_line lines key = None \<longrightarrow> get ?hm = Finite 0)
            \<and> (v = NaN \<longrightarrow> get ?hm = Finite 0)"
    by blast
  with p show ?thesis by blast
qed

text \<open>A header with a readable word count, an unreadable TODO count and no line for
  the sections.\<close>

theorem C5_extraction_total_witness:
  "\<exists>hm. parseHealthMetrics [''Updated: now'', ''- Word Count: 12 words'', ''- TODOs: many''] ''now'' = Inr hm
     \<and> metric_line [''Updated: now'', ''- Word Count: 12 words'', ''- TODOs: many''] ''Sections'' = None
     \<and> extractMetric [''Updated: now'', ''- Word Count: 12 words'', ''- TODOs: many''] ''TODOs'' False = Inr NaN
     \<and> word_count hm = Finite 12 \<and> todo_count hm = Finite 0 \<and> section_count hm = Finite 0"
proof -
  let ?L = "[''Updated: now'', ''- Word Count: 12 words'', ''- TODOs: many'']"
  obtain hm where hm: "parseHealthMetrics ?L ''now'' = Inr hm"
    and t: "\<forall>(key, pct, get) \<in> set metric_table.
          \<exists>v. extractMetric ?L key pct = Inr v
            \<and> get hm = or_zero v \<and> get hm \<noteq> NaN
            \<and> (metric_line ?L key = None \<longrightarrow> get hm = Finite 0)
            \<and> (v = NaN \<longrightarrow> get hm = Finite 0)"
    using C5_extraction_total [of ?L "''now''"] by blast
  have w: "extractMetric ?L ''Word Count'' False = Inr (Finite 12)" by code_simp
  have d: "extractMetric ?L ''TODOs'' False = Inr NaN" by code_simp
  have s: "metric_line ?L ''Sections'' = None" by code_simp
  have "word_count hm = Finite 12" using t w by (auto simp: metric_table_def or_zero_def)
  moreover have "todo_count hm = Finite 0" using t d by (auto simp: metric_table_def)
  moreover have "section_count hm = Finite 0" using t s by (auto simp: metric_table_def)
  ultimately show ?thesis using hm d s by blast
qed

subsection \<open>C4: the separator line, and all-or-nothing comparison\<close>

lemma findIndex_None: "findIndex p xs = None \<longleftrightarrow> (\<forall>x \<in> set xs. \<not> p x)"
  by (induction xs) auto


lemma findIndex_Some:
  "findIndex p xs = Some i \<Longrightarrow> i < length xs \<and> p (xs ! i) \<and> (\<forall>x \<in> set (take i xs). \<not> p x)"
proof (induction xs arbitrary: i)
  case Nil
  then show ?case by simp
next
  case (Cons x xs)
  show ?case
  proof (cases "p x")
    case True
    with Cons.prems show ?thesis by simp
  next
    case False
    with Cons.prems obtain j where j: "findIndex p xs = Some j" "i = Suc j" by auto
    with Cons.IH [of j] False show ?thesis by auto
  qed
qed

lemma parseMetadata_total: "\<exists>md hm. parseMetadata lines = Inr md \<and> health_metrics md = Some hm"
  by (simp add: parseMetadata_def Let_def parseHealthMetrics_eq bind_def)

lemma parseContent_cases:
  "parseContent doc =
     (case findIndex (\<lambda>line. line = ''---'') (split_str doc ''\<newline>'') of
        None \<Rightarrow> Inl FormatError
      | Some i \<Rightarrow>
          Inr \<lparr>metadata = projr (parseMetadata (take i (split_str doc ''\<newline>''))),
               content = filter (\<lambda>line. trim line \<noteq> []) (drop (i + 1) (split_str doc ''\<newline>''))\<rparr>)"
proof (cases "findIndex (\<lambda>line. line = ''---'') (split_str doc ''\<newline>'')")
  case None
  then show ?thesis by (simp add: parseContent_def)
next
  case (Some i)
  obtain md where "parseMetadata (take i (split_str doc ''\<newline>'')) = Inr md"
    using parseMetadata_total by blast
  with Some show ?thesis by (simp add: parseContent_def bind_def)
qed

lemma parseContent_error: "parseContent doc = Inl e \<Longrightarrow> e = FormatError"
  by (simp add: parseContent_cases split: option.splits)

lemma parseContent_FormatError:
  "parseContent doc = Inl FormatError \<longleftrightarrow> ''---'' \<notin> set (split_str doc ''\<newline>'')"
proof
  assume "parseContent doc = Inl FormatError"
  then have "findIndex (\<lambda>line. line = ''---'') (split_str doc ''\<newline>'') = None"
    by (simp add: parseContent_cases split: option.splits)
  then show "''---'' \<notin> set (split_str doc ''\<newline>'')" by (auto simp: findIndex_None)
next
  assume "''---'' \<notin> set (split_str doc ''\<newline>'')"
  then have "findIndex (\<lambda>line. line = ''---'') (split_str doc ''\<newline>'') = None"
    by (auto simp: findIndex_None)
  then show "parseContent doc = Inl FormatError" by (simp add: parseContent_def)
qed










subsection \<open>C9: the comparison depends on the two file contents only\<close>



section \<open>Properties of the metric differ\<close>






subsection \<open>C6: the entries of the changes map\<close>




section \<open>The invariant of parsed metrics\<close>

lemma take_findIndex: "findIndex p xs = Some i \<Longrightarrow> take i xs = takeWhile (\<lambda>x. \<not> p x) xs"
  by (induction xs arbitrary: i) (auto split: if_splits)

lemma parseContent_metrics:
  assumes "parseContent doc = Inr snap"
  shows "health_metrics (metadata snap)
     = Some (projr (parseHealthMetrics (metadata_lines doc)
                      (header_field (metadata_lines doc) ''Updated:'')))"
proof -
  from assms obtain i where i: "findIndex (\<lambda>line. line = ''---'') (split_str doc ''\<newline>'') = Some i"
    and m: "metadata snap = projr (parseMetadata (take i (split_str doc ''\<newline>'')))"
    by (auto simp: parseContent_cases split: option.splits)
  have "take i (split_str doc ''\<newline>'') = metadata_lines doc"
    using take_findIndex [OF i] by (simp add: metadata_lines_def)
  with m show ?thesis
    by (simp add: parseMetadata_def Let_def parseHealthMetrics_eq bind_def)
qed

lemma scale10_nonneg: "0 \<le> q \<Longrightarrow> 0 \<le> scale10 q ex"
  by (cases ex) (auto simp: scale10_def)

lemma unsigned_decimal_nonneg: "unsigned_decimal s = NaN \<or> ge_zero (unsigned_decimal s)"
  by (auto simp: unsigned_decimal_def Let_def scale10_nonneg split: list.splits)

lemma parseFloat_no_minus:
  assumes "CHR ''-'' \<notin> set s"
  shows "parseFloat s = NaN \<or> ge_zero (parseFloat s)"
proof (cases "dropWhile is_ws s")
  case Nil
  then show ?thesis by (simp add: parseFloat_def del: dropWhile_eq_Nil_conv)
next
  case (Cons c cs)
  then have "c \<in> set s" by (metis list.set_intros(1) set_dropWhileD)
  with assms have "c \<noteq> CHR ''-''" by auto
  with Cons show ?thesis
    using unsigned_decimal_nonneg [of cs] unsigned_decimal_nonneg [of "c # cs"]
    by (auto simp: parseFloat_def)
qed

lemma parseInt_no_minus:
  assumes "CHR ''-'' \<notin> set s"
  shows "parseInt s = NaN \<or> ge_zero (parseInt s)"
proof (cases "dropWhile is_ws s")
  case Nil
  then show ?thesis by (simp add: parseInt_def del: dropWhile_eq_Nil_conv)
next
  case (Cons c cs)
  then have "c \<in> set s" by (metis list.set_intros(1) set_dropWhileD)
  with assms have "c \<noteq> CHR ''-''" by auto
  with Cons show ?thesis by (auto simp: parseInt_def Let_def)
qed

lemma set_remove_first: "set (remove_first s pat) \<subseteq> set s"
  by (auto simp: remove_first_def split: option.splits dest: in_set_takeD in_set_dropD)

lemma set_split_first: "split_str s sep = tok # toks \<Longrightarrow> set tok \<subseteq> set s"
  by (subst (asm) split_str.simps) (auto split: if_splits option.splits list.splits dest: in_set_takeD)

lemma ge_zero_or_zero: "x = NaN \<or> ge_zero x \<Longrightarrow> ge_zero (or_zero x)"
  by (cases x) (auto simp: or_zero_def)

lemma extractMetric_value_text:
  "extractMetric lines key pct =
     Inr (case value_text lines key of
            None \<Rightarrow> Finite 0
          | Some t \<Rightarrow> if pct then parseFloat (remove_first t ''%'')
                      else (case split_str t '' '' of [] \<Rightarrow> NaN | tok # toks \<Rightarrow> parseInt tok))"
proof (cases "metric_line lines key")
  case None
  then show ?thesis by (simp add: extractMetric_absent value_text_def)
next
  case (Some line)
  then have f: "find (\<lambda>l. str_includes l (''- '' @ key @ '':'')) lines = Some line"
    by (simp add: metric_line_def)
  then have "str_includes line (''- '' @ key @ '':'')" by (auto simp: find_Some_iff)
  then have c: "CHR '':'' \<in> set line" using str_includes_set by fastforce
  then obtain p0 p1 ps where sp: "split_str line '':'' = p0 # p1 # ps"
    using split_colon_two by blast
  from c have "line \<noteq> []" by auto
  then show ?thesis
    using Some f sp by (simp add: extractMetric_def value_text_def Let_def split: list.splits)
qed

lemma extractMetric_no_minus:
  assumes "\<forall>t. value_text lines key = Some t \<longrightarrow> CHR ''-'' \<notin> set t"
  shows "ge_zero (or_zero (projr (extractMetric lines key pct)))"
proof (cases "value_text lines key")
  case None
  then show ?thesis by (simp add: extractMetric_value_text)
next
  case (Some t)
  with assms have m: "CHR ''-'' \<notin> set t" by simp
  show ?thesis
  proof (cases pct)
    case True
    have "CHR ''-'' \<notin> set (remove_first t ''%'')" using m set_remove_first by fastforce
    then show ?thesis
      using Some True by (simp add: extractMetric_value_text ge_zero_or_zero parseFloat_no_minus)
  next
    case False
    show ?thesis
    proof (cases "split_str t '' ''")
      case Nil
      then show ?thesis using Some False by (simp add: extractMetric_value_text)
    next
      case (Cons tok toks)
      then have "CHR ''-'' \<notin> set tok" using m set_split_first by fastforce
      then show ?thesis
        using Some False Cons
        by (simp add: extractMetric_value_text ge_zero_or_zero parseInt_no_minus)
    qed
  qed
qed

subsection \<open>C8: the record invariant\<close>

text \<open>
  C8, as the specification states it: every numeric field of a parsed record is
  non-negative.  The header line \<open>- Word Count: -5\<close> parses to a word count of -5:
  \<open>parseInt\<close> reads the sign, and nothing in the parser rejects a negative value.
\<close>

theorem C8_invariant_counterexample:
  "map_sum id (\<lambda>s. map_option word_count (health_metrics (metadata s)))
      (parseContent ''- Word Count: -5\<newline>---'') = Inr (Some (Finite (- 5)))
   \<and> \<not> ge_zero (Finite (- 5))"
  by code_simp

text \<open>
  C8 (amended): every record produced by parsing a snapshot document has
  \<open>has_todos\<close> equal to exactly \<open>todo_count > 0\<close>; its section depth, average section
  length and readability score are 0; no parsed metric is \<open>NaN\<close>; and a parsed metric
  is non-negative whenever its value text contains no minus sign.
\<close>

theorem C8_invariant_amended:
  assumes "parseContent doc = Inr snap"
  shows "\<exists>hm. health_metrics (metadata snap) = Some hm
     \<and> has_todos hm = gt_zero (todo_count hm)
     \<and> (\<forall>(key, pct, get) \<in> set metric_table.
           get hm \<noteq> NaN
         \<and> ((\<forall>t. value_text (metadata_lines doc) key = Some t \<longrightarrow> CHR ''-'' \<notin> set t)
              \<longrightarrow> ge_zero (get hm)))
     \<and> section_depth hm = Finite 0 \<and> avg_section_length hm = Finite 0
     \<and> readability_score hm = Finite 0"
proof -
  let ?L = "metadata_lines doc"
  let ?hm = "projr (parseHealthMetrics ?L (header_field ?L ''Updated:''))"
  have h: "health_metrics (metadata snap) = Some ?hm"
    using assms by (rule parseContent_metrics)
  have t: "has_todos ?hm = gt_zero (todo_count ?hm)"
    by (simp add: parseHealthMetrics_eq)
  have z: "section_depth ?hm = Finite 0 \<and> avg_section_length ?hm = Finite 0
     \<and> readability_score ?hm = Finite 0"
    by (simp add: parseHealthMetrics_eq)
  have "get ?hm \<noteq> NaN
         \<and> ((\<forall>t. value_text ?L key = Some t \<longrightarrow> CHR ''-'' \<notin> set t) \<longrightarrow> ge_zero (get ?hm))"
    if m: "(key, pct, get) \<in> set metric_table" for key pct get
    using metric_field [OF m, of ?L "header_field ?L ''Updated:''"]
      extractMetric_no_minus [of ?L key pct]
    by auto
  then have "\<forall>(key, pct, get) \<in> set metric_table.
           get ?hm \<noteq> NaN
         \<and> ((\<forall>t. value_text ?L key = Some t \<longrightarrow> CHR ''-'' \<notin> set t) \<longrightarrow> ge_zero (get ?hm))"
    by blast
  with h t z show ?thesis by blast
qed

theorem C8_invariant_amended_witness:
  "\<exists>snap hm. parseContent ''- Word Count: 12\<newline>- TODOs: 3 open\<newline>---\<newline>body'' = Inr snap
     \<and> health_metrics (metadata snap) = Some hm
     \<and> value_text (metadata_lines ''- Word Count: 12\<newline>- TODOs: 3 open\<newline>---\<newline>body'') ''Word Count''
          = Some ''12''
     \<and> has_todos hm = gt_zero (todo_count hm)
     \<and> ge_zero (word_count hm)"
proof -
  let ?doc = "''- Word Count: 12\<newline>- TODOs: 3 open\<newline>---\<newline>body''"
  have "''---'' \<in> set (split_str ?doc ''\<newline>'')" by code_simp
  then have "parseContent ?doc \<noteq> Inl FormatError" by (simp add: parseContent_FormatError)
  then obtain snap where s: "parseContent ?doc = Inr snap"
    using parseContent_error [of ?doc] by (cases "parseContent ?doc") auto
  have v: "value_text (metadata_lines ?doc) ''Word Count'' = Some ''12''" by code_simp
  from C8_invariant_amended [OF s] obtain hm where h: "health_metrics (metadata snap) = Some hm"
    and t: "has_todos hm = gt_zero (todo_count hm)"
    and m: "\<forall>(key, pct, get) \<in> set metric_table.
           get hm \<noteq> NaN
         \<and> ((\<forall>t. value_text (metadata_lines ?doc) key = Some t \<longrightarrow> CHR ''-'' \<notin> set t)
              \<longrightarrow> ge_zero (get hm))"
    by blast
  have "(''Word Count'', False, word_count) \<in> set metric_table" by (simp add: metric_table_def)
  with m have "(\<forall>t. value_text (metadata_lines ?doc) ''Word Count'' = Some t \<longrightarrow> CHR ''-'' \<notin> set t)
      \<longrightarrow> ge_zero (word_count hm)" by blast
  with v have "ge_zero (word_count hm)" by simp
  with s h v t show ?thesis by blast
qed

(*MORE*)

end
